theory Spec2Isabelle
  imports Main "HOL-Library.Monad_Syntax"
begin

section \<open>Strings of the C++ standard library\<close>

text \<open>
  A \<open>docstring\<close> is a \<open>std::basic_string\<close>; it is modelled as a \<open>string\<close>.
  Positions and lengths are \<open>size_t\<close> values: natural numbers below \<open>2 ^ 64\<close>,
  with the wrap-around of unsigned arithmetic written out. \<open>npos\<close> is the largest
  \<open>size_t\<close>. The members \<open>substr\<close> and \<open>erase\<close> throw \<open>std::out_of_range\<close>
  when the position lies beyond the end of the string: that is the result \<open>None\<close>.
\<close>

definition npos :: nat where
  "npos = 2 ^ 64 - 1"

definition size_add :: "nat \<Rightarrow> nat \<Rightarrow> nat" where
  "size_add a b = (a + b) mod 2 ^ 64"

definition size_sub :: "nat \<Rightarrow> nat \<Rightarrow> nat" where
  "size_sub a b = (a + 2 ^ 64 - b mod 2 ^ 64) mod 2 ^ 64"

fun starts_with :: "string \<Rightarrow> string \<Rightarrow> bool" where
  "starts_with s [] = True"
| "starts_with [] (p # ps) = False"
| "starts_with (c # cs) (p # ps) = (c = p \<and> starts_with cs ps)"

text \<open>\<open>find_at s pat i\<close> searches \<open>pat\<close> in \<open>s\<close>, whose first character has index \<open>i\<close>.\<close>

fun find_at :: "string \<Rightarrow> string \<Rightarrow> nat \<Rightarrow> nat" where
  "find_at [] pat i = (if pat = [] then i else npos)"
| "find_at (c # cs) pat i =
     (if starts_with (c # cs) pat then i else find_at cs pat (i + 1))"

text \<open>\<open>s.find(pat, pos)\<close>: the first index at or after \<open>pos\<close> where \<open>pat\<close> occurs, or \<open>npos\<close>.\<close>

definition str_find :: "string \<Rightarrow> string \<Rightarrow> nat \<Rightarrow> nat" where
  "str_find s pat pos = (if length s < pos then npos else find_at (drop pos s) pat pos)"

text \<open>\<open>s.substr(pos, n)\<close>; \<open>s.substr(pos)\<close> is \<open>str_substr s pos npos\<close>.\<close>

definition str_substr :: "string \<Rightarrow> nat \<Rightarrow> nat \<Rightarrow> string option" where
  "str_substr s pos n = (if length s < pos then None else Some (take n (drop pos s)))"

text \<open>\<open>s.erase(pos, n)\<close>; \<open>s.erase(pos)\<close> is \<open>str_erase s pos npos\<close>.\<close>

definition str_erase :: "string \<Rightarrow> nat \<Rightarrow> nat \<Rightarrow> string option" where
  "str_erase s pos n = (if length s < pos then None else Some (take pos s @ drop (pos + n) s))"

text \<open>\<open>s[0]\<close>: the first character, and the terminating null character of an empty string.\<close>

definition str_front :: "string \<Rightarrow> char" where
  "str_front s = (case s of [] \<Rightarrow> CHR 0x00 | c # _ \<Rightarrow> c)"

abbreviation apos :: string where
  "apos \<equiv> [CHR 0x27]"

abbreviation dquote :: string where
  "dquote \<equiv> [CHR 0x22]"

abbreviation bslash :: string where
  "bslash \<equiv> [CHR 0x5C]"

abbreviation newline :: string where
  "newline \<equiv> [CHR 0x0A]"


section \<open>Helpers of the support library\<close>

text \<open>
  Modelled from the spec: \<open>trim\<close> (declared in \<open>support/lstrings.h\<close>) is not part of
  the source file. The spec speaks of trimmed segments; here \<open>trim\<close> removes the space
  characters at both ends of a string.
\<close>

definition is_space :: "char \<Rightarrow> bool" where
  "is_space c = (c = CHR '' '')"

definition trim :: "string \<Rightarrow> string" where
  "trim s = rev (dropWhile is_space (rev (dropWhile is_space s)))"

text \<open>A string is trimmed when it neither starts nor ends with a space.\<close>

definition trimmed :: "string \<Rightarrow> bool" where
  "trimmed s = (s = [] \<or> (\<not> is_space (hd s) \<and> \<not> is_space (last s)))"


section \<open>Parsing an index entry (\<open>parseItem\<close>, \<open>extractSubentries\<close>)\<close>

text \<open>
  \<open>parseItem\<close> changes its argument in place; the model returns the new string.
\<close>

definition parseItem :: "string \<Rightarrow> bool \<Rightarrow> string option" where
  "parseItem s for_output = do {
     let loc = str_find s ''@'' 0;
     s1 \<leftarrow> (if loc \<noteq> npos
            then (if for_output then str_erase s 0 (size_add loc 1) else str_erase s loc npos)
            else Some s);
     let loc2 = str_find s1 ''|'' 0;
     (if loc2 \<noteq> npos then str_erase s1 loc2 npos else Some s1)
   }"

text \<open>
  \<open>extractSubentries\<close> writes through the references \<open>main\<close>, \<open>sub1\<close> and \<open>sub2\<close>;
  the model takes their values at the call and returns their values at the return.
\<close>

definition extractSubentries ::
  "string \<Rightarrow> string \<times> string \<times> string \<Rightarrow> (string \<times> string \<times> string) option" where
  "extractSubentries entry refs =
     (case refs of (main0, sub1, sub2) \<Rightarrow>
        if entry = [] then Some (main0, sub1, sub2)
        else
          let loc = str_find entry '' ! '' 0 in
          if loc = npos then Some (entry, sub1, sub2)
          else do {
            m \<leftarrow> str_substr entry 0 loc;
            let locend = size_add loc 3;
            let loc2 = str_find entry '' ! '' locend;
            if loc2 = npos then do {
              s1 \<leftarrow> str_substr entry locend npos;
              Some (trim m, trim s1, sub2)
            } else do {
              s1 \<leftarrow> str_substr entry locend (size_sub loc2 locend);
              s2 \<leftarrow> str_substr entry (size_add loc2 3) npos;
              Some (trim m, trim s1, trim s2)
            }
          })"

text \<open>
  The parse operation of the spec: three empty strings are declared, filled by
  \<open>extractSubentries\<close>, and each is passed through \<open>parseItem\<close>. The constructor of
  \<open>IndexEntry\<close> does so with \<open>for_output = false\<close>, the loop of
  \<open>InsetPrintIndex::xhtml\<close> with \<open>for_output = true\<close>.
\<close>

definition parse :: "string \<Rightarrow> bool \<Rightarrow> (string \<times> string \<times> string) option" where
  "parse s for_output = do {
     (m, s1, s2) \<leftarrow> extractSubentries s ([], [], []);
     m' \<leftarrow> parseItem m for_output;
     s1' \<leftarrow> parseItem s1 for_output;
     s2' \<leftarrow> parseItem s2 for_output;
     Some (m', s1', s2')
   }"


section \<open>The web rendering of the index (\<open>InsetPrintIndex::xhtml\<close>)\<close>

text \<open>
  What is written to an \<open>XMLStream\<close> is recorded as a list of items, in order:
  start, end and self-closing tags with their attribute strings, text that the stream
  escapes (\<open>Text\<close>), text written after \<open>XMLStream::ESCAPE_NONE\<close> (\<open>Raw\<close>), integers
  and \<open>xml::CR()\<close>.
\<close>

datatype xml_item =
    StartTag string string
  | EndTag string
  | CompTag string string
  | Text string
  | Raw string
  | Num int
  | CR

text \<open>
  Of a paragraph the code uses its \<open>magicLabel()\<close> and what
  \<open>simpleLyXHTMLOnePar\<close> writes for it (\<open>html\<close>); of a document iterator its
  \<open>innerParagraph()\<close>; of a table-of-contents item \<open>str()\<close>, \<open>dit()\<close> and
  \<open>isOutput()\<close>; of the layout of the table of contents its tag, attributes and class.
\<close>

record Paragraph =
  magicLabel :: string
  html :: string

record DocIterator =
  innerParagraph :: Paragraph

record TocItem =
  str :: string
  tdit :: DocIterator
  isOutput :: bool

record Layout =
  htmltag :: string
  htmlattr :: string
  defaultCSSClass :: string

record IndexEntry =
  main :: string
  sub :: string
  subsub :: string
  dit :: DocIterator

text \<open>The default constructor \<open>IndexEntry()\<close>.\<close>

definition IndexEntry_default :: IndexEntry where
  "IndexEntry_default =
     \<lparr>main = [], sub = [], subsub = [],
      dit = \<lparr>innerParagraph = \<lparr>magicLabel = [], html = []\<rparr>\<rparr>\<rparr>"

text \<open>The constructor \<open>IndexEntry(s, d)\<close>.\<close>

definition IndexEntry_of :: "string \<Rightarrow> DocIterator \<Rightarrow> IndexEntry option" where
  "IndexEntry_of s d = do {
     (m, s1, s2) \<leftarrow> parse s False;
     Some \<lparr>main = m, sub = s1, subsub = s2, dit = d\<rparr>
   }"

definition entry_equal :: "IndexEntry \<Rightarrow> IndexEntry \<Rightarrow> bool" where
  "entry_equal lhs rhs = (main lhs = main rhs \<and> sub lhs = sub rhs \<and> subsub lhs = subsub rhs)"

definition same_sub :: "IndexEntry \<Rightarrow> IndexEntry \<Rightarrow> bool" where
  "same_sub lhs rhs = (main lhs = main rhs \<and> sub lhs = sub rhs)"

definition same_main :: "IndexEntry \<Rightarrow> IndexEntry \<Rightarrow> bool" where
  "same_main lhs rhs = (main lhs = main rhs)"

text \<open>
  Modelled from the spec: \<open>compare_no_case\<close> (declared in \<open>support/lstrings.h\<close>) is
  not part of the source file. The spec orders entries case-insensitively and
  lexicographically; here the characters are compared after the letters \<open>A\<close> to \<open>Z\<close>
  are mapped to lower case, and a proper prefix is smaller.
\<close>

definition lowercase :: "char \<Rightarrow> nat" where
  "lowercase c =
     (let n = of_char c in if (65::nat) \<le> n \<and> n \<le> 90 then n + 32 else n)"

fun compare_no_case :: "string \<Rightarrow> string \<Rightarrow> int" where
  "compare_no_case [] [] = 0"
| "compare_no_case [] (y # ys) = -1"
| "compare_no_case (x # xs) [] = 1"
| "compare_no_case (x # xs) (y # ys) =
     (if lowercase x \<noteq> lowercase y then (if lowercase x < lowercase y then -1 else 1)
      else compare_no_case xs ys)"

text \<open>\<open>operator<\<close> on index entries.\<close>

definition entry_less :: "IndexEntry \<Rightarrow> IndexEntry \<Rightarrow> bool" where
  "entry_less lhs rhs =
     (let comp = compare_no_case (main lhs) (main rhs);
          comp = (if comp = 0 then compare_no_case (sub lhs) (sub rhs) else comp);
          comp = (if comp = 0 then compare_no_case (subsub lhs) (subsub rhs) else comp)
      in comp < 0)"

text \<open>
  \<open>std::stable_sort\<close> with \<open>operator<\<close>: entries that are not ordered by \<open>operator<\<close>
  keep their order. An insertion sort that puts an entry in front of the first one
  that is not smaller computes that result.
\<close>

fun stable_insert :: "IndexEntry \<Rightarrow> IndexEntry list \<Rightarrow> IndexEntry list" where
  "stable_insert x [] = [x]"
| "stable_insert x (y # ys) =
     (if entry_less y x then y # stable_insert x ys else x # y # ys)"

definition stable_sort :: "IndexEntry list \<Rightarrow> IndexEntry list" where
  "stable_sort es = foldr stable_insert es []"

text \<open>The loop that collects the entries of the table of contents that are output.\<close>

fun collect_entries :: "TocItem list \<Rightarrow> IndexEntry list option" where
  "collect_entries [] = Some []"
| "collect_entries (t # ts) =
     (if isOutput t then do {
        e \<leftarrow> IndexEntry_of (str t) (tdit t);
        es \<leftarrow> collect_entries ts;
        Some (e # es)
      } else collect_entries ts)"

text \<open>The variables of the main loop: \<open>level\<close>, \<open>last\<close>, \<open>entry_number\<close> and the stream.\<close>

record loop_state =
  level :: int
  last_entry :: IndexEntry
  entry_number :: int
  xs :: "xml_item list"

abbreviation li :: string where "li \<equiv> ''li''"
abbreviation ul :: string where "ul \<equiv> ''ul''"

abbreviation class_main :: string where
  "class_main \<equiv> ''class='' @ apos @ ''main'' @ apos"

abbreviation class_subentry :: string where
  "class_subentry \<equiv> ''class='' @ apos @ ''subentry'' @ apos"

abbreviation class_subsubentry :: string where
  "class_subsubentry \<equiv> ''class='' @ apos @ ''subsubentry'' @ apos"

text \<open>
  Closing the last entry or entries, when this is not the first time through the loop:
  the three tests on \<open>level\<close>, in the order of the source.
\<close>

definition xhtml_close :: "int \<Rightarrow> IndexEntry \<Rightarrow> IndexEntry \<Rightarrow> int \<times> xml_item list" where
  "xhtml_close level0 e lst =
     (let (level1, out1) =
            (if level0 = 3 then
               (if \<not> same_sub e lst then (2, [EndTag li, CR, EndTag ul, CR])
                else (level0, [EndTag li, CR]))
             else (level0, []));
          (level2, out2) =
            (if level1 = 2 \<and> \<not> same_sub e lst then
               (if \<not> same_main e lst then (1, [EndTag li, CR, EndTag ul, CR])
                else (level1, [EndTag li, CR]))
             else (level1, []));
          out3 = (if level2 = 1 \<and> \<not> same_main e lst then [EndTag li, CR] else [])
      in (level2, out1 @ out2 @ out3))"

text \<open>
  Starting new entries: \<open>dmain\<close>, \<open>dsub\<close> and \<open>dsubsub\<close> are the local strings
  \<open>main\<close>, \<open>sub\<close> and \<open>subsub\<close>, parsed for output from the paragraph's XHTML.
\<close>

definition xhtml_open ::
  "int \<Rightarrow> IndexEntry \<Rightarrow> IndexEntry \<Rightarrow> string \<Rightarrow> string \<Rightarrow> string \<Rightarrow> int \<times> xml_item list" where
  "xhtml_open level0 e lst dmain dsub dsubsub =
     (if level0 = 3 then
        (level0, [StartTag li class_subsubentry, Raw dsubsub])
      else if level0 = 2 then
        (let out1 = (if sub e \<noteq> sub lst then [StartTag li class_subentry, Raw dsub] else [])
         in if dsubsub \<noteq> [] then
              (3, out1 @ [CR, StartTag ul class_subsubentry,
                          StartTag li class_subsubentry, Raw dsubsub])
            else (level0, out1))
      else
        (let out1 = (if main e \<noteq> main lst then [StartTag li class_main, Text dmain] else [])
         in if dsub \<noteq> [] then
              (let out2 = out1 @ [CR, StartTag ul class_subentry,
                                  StartTag li class_subentry, Raw dsub]
               in if dsubsub \<noteq> [] then
                    (3, out2 @ [CR, StartTag ul class_subsubentry,
                                StartTag li class_subsubentry, Raw dsubsub])
                  else (2, out2))
            else (level0, out1)))"

text \<open>One iteration of the main loop.\<close>

definition xhtml_entry :: "loop_state \<Rightarrow> IndexEntry \<Rightarrow> loop_state option" where
  "xhtml_entry st e = do {
     let par = innerParagraph (dit e);
     st1 \<leftarrow>
       (if entry_number st = -1 \<or> \<not> entry_equal e (last_entry st) then do {
          let (level1, closing) =
                (if entry_number st \<noteq> -1 then xhtml_close (level st) e (last_entry st)
                 else (level st, []));
          (dmain, dsub, dsubsub) \<leftarrow> parse (html par) True;
          let (level2, opening) = xhtml_open level1 e (last_entry st) dmain dsub dsubsub;
          Some (st\<lparr>level := level2, entry_number := 0, xs := xs st @ closing @ opening\<rparr>)
        } else Some st);
     let parattr = ''href='' @ apos @ ''#'' @ magicLabel par @ apos;
     Some (st1\<lparr>xs := xs st1 @
                   [Text (if entry_number st1 = 0 then '':'' else '',''), Text '' '',
                    StartTag ''a'' parattr, Num (entry_number st1 + 1), EndTag ''a''],
               entry_number := entry_number st1 + 1,
               last_entry := e\<rparr>)
   }"

fun xhtml_loop :: "loop_state \<Rightarrow> IndexEntry list \<Rightarrow> loop_state option" where
  "xhtml_loop st [] = Some st"
| "xhtml_loop st (e # es) =
     (case xhtml_entry st e of None \<Rightarrow> None | Some st' \<Rightarrow> xhtml_loop st' es)"

text \<open>The final loop \<open>while (level > 0)\<close> that closes the open levels.\<close>

function close_levels :: "int \<Rightarrow> xml_item list" where
  "close_levels lvl =
     (if lvl > 0 then [EndTag li, EndTag ul, CR] @ close_levels (lvl - 1) else [])"
  by pat_completeness auto
termination
  by (relation "measure nat") auto

text \<open>
  \<open>InsetPrintIndex::xhtml\<close>. Its stream parameter has no name and is never written
  to; the result is the returned string, given as the items written to the function's
  own stream, and \<open>[]\<close> for the empty \<open>docstring()\<close>. \<open>title\<close> is the translation
  of \<open>Index\<close> that \<open>translateIfPossible\<close> returns.
\<close>

definition xhtml ::
  "bool \<Rightarrow> string \<Rightarrow> Layout \<Rightarrow> string \<Rightarrow> TocItem list \<Rightarrow> xml_item list option" where
  "xhtml use_indices type_param lay title toc =
     (if use_indices \<and> type_param \<noteq> ''idx'' then Some []
      else if toc = [] then Some []
      else do {
        entries \<leftarrow> collect_entries toc;
        if entries = [] then Some []
        else do {
          let sorted_entries = stable_sort entries;
          let tocattr = ''class='' @ apos @ ''index '' @ defaultCSSClass lay @ apos;
          let xs0 = [StartTag ''div'' tocattr,
                     StartTag (htmltag lay) (htmlattr lay), Text title, EndTag (htmltag lay),
                     StartTag ul class_main];
          st \<leftarrow> xhtml_loop \<lparr>level = 1, last_entry = IndexEntry_default,
                             entry_number = -1, xs = xs0\<rparr> sorted_entries;
          Some (xs st @ close_levels (level st) @ [EndTag ''div'', CR])
        }
      })"


section \<open>The semantic markup of an index entry (\<open>InsetIndex::docbook\<close>)\<close>

text \<open>
  Modelled from the spec: \<open>getVectorFromString\<close> (declared in
  \<open>support/lstrings.h\<close>) is not part of the source file. The spec splits a string on
  a delimiter into pieces; here the pieces are trimmed, an empty string has no piece,
  and empty pieces are dropped unless \<open>keepempty\<close> is set.
\<close>

fun split_pieces :: "string \<Rightarrow> string \<Rightarrow> string list" where
  "split_pieces delim [] = [[]]"
| "split_pieces delim (c # cs) =
     (if delim \<noteq> [] \<and> starts_with (c # cs) delim
      then [] # split_pieces delim (drop (length delim) (c # cs))
      else (case split_pieces delim cs of
              [] \<Rightarrow> [[c]]
            | p # ps \<Rightarrow> (c # p) # ps))"

definition getVectorFromString :: "string \<Rightarrow> string \<Rightarrow> bool \<Rightarrow> string list" where
  "getVectorFromString s delim keepempty =
     (if s = [] then []
      else filter (\<lambda>key. key \<noteq> [] \<or> keepempty) (map trim (split_pieces delim s)))"

text \<open>\<open>std::to_string\<close> on an \<open>int\<close>: the decimal digits, with a sign when negative.\<close>

fun digits :: "nat \<Rightarrow> string" where
  "digits n =
     (if n < 10 then [''0123456789'' ! n]
      else digits (n div 10) @ [''0123456789'' ! (n mod 10)])"

definition to_string :: "int \<Rightarrow> string" where
  "to_string i = (if i < 0 then ''-'' @ digits (nat (- i)) else digits (nat i))"

text \<open>
  The diagnostic comments: every error is written to the stream, unescaped, as
  \<open><!-- Output Error: ... -->\<close> followed by a line break (and sent to the log,
  which the model leaves out).
\<close>

definition output_error :: "string \<Rightarrow> xml_item" where
  "output_error error = Raw (''<!-- Output Error: '' @ error @ '' -->'' @ newline)"

text \<open>
  Where \<open>find\<close> returns a position, the pattern lies within the string there. The
  loops below terminate for that reason.
\<close>

lemma starts_with_length: "starts_with s pat \<Longrightarrow> length pat \<le> length s"
  by (induction s pat rule: starts_with.induct) auto

lemma find_at_bound:
  "find_at s pat i = npos \<or>
   (i \<le> find_at s pat i \<and> find_at s pat i - i + length pat \<le> length s)"
proof (induction s arbitrary: i)
  case Nil
  then show ?case by simp
next
  case (Cons c cs)
  show ?case
  proof (cases "starts_with (c # cs) pat")
    case True
    then show ?thesis using starts_with_length [OF True] by simp
  next
    case False
    then show ?thesis using Cons.IH [of "i + 1"] by auto
  qed
qed

lemma str_find_bound:
  assumes "str_find s pat pos \<noteq> npos"
  shows "pos \<le> str_find s pat pos \<and> str_find s pat pos + length pat \<le> length s"
proof -
  from assms have le: "pos \<le> length s" and ne: "find_at (drop pos s) pat pos \<noteq> npos"
    by (auto simp: str_find_def split: if_splits)
  from find_at_bound [of "drop pos s" pat pos] ne
  have "pos \<le> find_at (drop pos s) pat pos"
    and "find_at (drop pos s) pat pos - pos + length pat \<le> length s - pos"
    by auto
  with le show ?thesis by (simp add: str_find_def)
qed

text \<open>
  The loops \<open>while ((index = command.find(pat, index)) != npos) command.erase(index, 1)\<close>,
  for the two-character patterns \<open>[a, b]\<close> the source uses: the first character of
  every occurrence is erased.
\<close>

function erase_loop :: "char \<Rightarrow> char \<Rightarrow> string \<Rightarrow> nat \<Rightarrow> string option" where
  "erase_loop a b command index =
     (let index' = str_find command [a, b] index in
      if index' = npos then Some command
      else (case str_erase command index' 1 of
              None \<Rightarrow> None
            | Some command' \<Rightarrow> erase_loop a b command' index'))"
  by pat_completeness auto
termination
proof (relation "measure (\<lambda>(a, b, command, index). length command)", goal_cases)
  case 1
  show ?case by simp
next
  case (2 a b command index x command')
  from str_find_bound [of command "[a, b]" index] 2
  have "x + 2 \<le> length command" by simp
  with 2 show ?case by (auto simp: str_erase_def split: if_splits)
qed

declare erase_loop.simps [simp del]

text \<open>
  The state of the range identifiers, one per thread (\<open>QThreadStorage\<close>): the set
  \<open>tKnownTermLists\<close> and the counter \<open>tID\<close>. The counter is a C++ \<open>int\<close>; the
  model holds for counters below \<open>2 ^ 31 - 1\<close>, where \<open>ID++\<close> does not overflow.
\<close>

record range_state =
  knownTermLists :: "string set"
  ID :: int

text \<open>The state of a thread that has not yet run the function.\<close>

definition range_state_init :: range_state where
  "range_state_init = \<lparr>knownTermLists = {}, ID = 0\<rparr>"

text \<open>
  The function is given in the order of the source, one definition for each of its
  parts. First the check for \<open>@\<close> followed by a backslash, which is not supported
  (lines 216 to 222).
\<close>

definition docbook_unsupported_at :: "string \<Rightarrow> xml_item list" where
  "docbook_unsupported_at latexString =
     (if str_find latexString (''@'' @ bslash) 0 \<noteq> npos
      then [output_error
              (''Unsupported feature: an index entry contains an @'' @ bslash
               @ ''. Complete entry: '' @ dquote @ latexString @ dquote)]
      else [])"

text \<open>
  Splitting the string at the first \<open>|\<close> into the index terms and the command
  (lines 230 to 236).
\<close>

definition docbook_split :: "string \<Rightarrow> (string \<times> string) option" where
  "docbook_split latexString = do {
     let positionVerticalBar = str_find latexString ''|'' 0;
     indexTerms \<leftarrow> str_substr latexString 0 positionVerticalBar;
     command \<leftarrow>
       (if positionVerticalBar \<noteq> npos
        then str_substr latexString (size_add positionVerticalBar 1) npos
        else Some []);
     Some (indexTerms, command)
   }"

text \<open>Handling \<open>@\<close> (lines 238 to 244): the result is \<open>sortAs\<close> and the index terms.\<close>

definition docbook_sorting :: "string \<Rightarrow> string \<times> string" where
  "docbook_sorting indexTerms =
     (let sortingElements = getVectorFromString indexTerms ''@'' False in
      if length sortingElements = 2
      then (sortingElements ! 0, sortingElements ! 1)
      else ([], indexTerms))"

text \<open>
  Handling ranges (lines 249 to 264): the two flags, and the command without its
  range markers.
\<close>

definition hasStartRange :: "string \<Rightarrow> bool" where
  "hasStartRange latexString = (str_find latexString ''|('' 0 \<noteq> npos)"

definition hasEndRange :: "string \<Rightarrow> bool" where
  "hasEndRange latexString = (str_find latexString ''|)'' 0 \<noteq> npos)"

definition docbook_ranges :: "string \<Rightarrow> string \<Rightarrow> string option" where
  "docbook_ranges latexString command =
     (if hasStartRange latexString \<or> hasEndRange latexString then do {
        command1 \<leftarrow> erase_loop (CHR ''|'') (CHR ''('') command 0;
        command2 \<leftarrow> erase_loop (CHR ''|'') (CHR '')'') command1 0;
        (if str_front command2 = CHR ''('' \<or> str_front command2 = CHR '')''
         then str_erase command2 0 1 else Some command2)
      } else Some command)"

text \<open>
  Handling \<open>see\<close> and \<open>seealso\<close> (lines 266 to 300): the result is \<open>see\<close>,
  \<open>seeAlsoes\<close>, what is written to the stream, and the command that is left.
\<close>

definition docbook_see ::
  "string \<Rightarrow> string \<Rightarrow> (string \<times> string list \<times> xml_item list \<times> string) option" where
  "docbook_see latexString command = do {
     prefix3 \<leftarrow> str_substr command 0 3;
     if prefix3 = ''see'' then do {
       command1 \<leftarrow> erase_loop (CHR 0x5C) (CHR ''{'') command 0;
       command2 \<leftarrow> erase_loop (CHR 0x5C) (CHR ''}'') command1 0;
       let positionOpeningBracket = str_find command2 ''{'' 0;
       let positionClosingBracket = str_find command2 ''}'' 0;
       list \<leftarrow> str_substr command2 (size_add positionOpeningBracket 1)
                 (size_sub (size_sub positionClosingBracket positionOpeningBracket) 1);
       prefix7 \<leftarrow> str_substr command2 0 7;
       let (see, seeAlsoes, out) =
             (if prefix7 = ''seealso''
              then ([], getVectorFromString list '','' False, [])
              else (list, [],
                    if str_find list '','' 0 \<noteq> npos
                    then [output_error
                            (''Several index terms found as '' @ dquote @ ''see'' @ dquote
                             @ ''! Only one is acceptable. Complete entry: '' @ dquote
                             @ latexString @ dquote)]
                    else []));
       command3 \<leftarrow> str_substr command2 (size_add positionClosingBracket 1) npos;
       Some (see, seeAlsoes, out, command3)
     } else Some ([], [], [], command)
   }"

text \<open>The check for what is left of the command (lines 302 to 312).\<close>

definition docbook_unsupported_command :: "string \<Rightarrow> string \<Rightarrow> xml_item list" where
  "docbook_unsupported_command latexString command =
     (if command \<noteq> []
      then [output_error
              (''Unsupported feature: an index entry contains a | with an ''
               @ ''unsupported command, '' @ command @ ''. ''
               @ ''Complete entry: '' @ dquote @ latexString @ dquote)]
      else [])"

text \<open>
  The attributes of the \<open>indexterm\<close> element, with the identifiers of ranges
  (lines 327 to 365). \<open>cleanID\<close> stands for \<open>xml::cleanID\<close>, which is not part of
  the source file.
\<close>

definition docbook_attrs ::
  "(string \<Rightarrow> string) \<Rightarrow> string \<Rightarrow> range_state \<Rightarrow> string \<Rightarrow> bool \<Rightarrow> bool
     \<Rightarrow> string \<times> range_state" where
  "docbook_attrs cleanID indexType st indexTerms startRange endRange =
     (if \<not> startRange \<and> \<not> endRange then (indexType, st)
      else
        let known = (indexTerms \<in> knownTermLists st);
            newIndexTerms =
              (if known then indexTerms @ ''-'' @ to_string (ID st) else indexTerms);
            st1 = (if known \<and> endRange then st\<lparr>ID := ID st + 1\<rparr> else st);
            st2 = (if indexTerms \<notin> knownTermLists st1 \<and> endRange
                   then st1\<lparr>knownTermLists := insert indexTerms (knownTermLists st1)\<rparr>
                   else st1);
            id = cleanID newIndexTerms
        in (if startRange
            then indexType @ '' class='' @ dquote @ ''startofrange'' @ dquote
                 @ '' xml:id='' @ dquote @ id @ dquote
            else '' class='' @ dquote @ ''endofrange'' @ dquote
                 @ '' startref='' @ dquote @ id @ dquote,
            st2))"

text \<open>Writing the \<open>indexterm\<close> element (lines 367 to 410).\<close>

definition docbook_write ::
  "string \<Rightarrow> bool \<Rightarrow> string list \<Rightarrow> string \<Rightarrow> string \<Rightarrow> string list \<Rightarrow> xml_item list" where
  "docbook_write attrs endRange terms sortAs see seeAlsoes =
     (if endRange then [CompTag ''indexterm'' attrs]
      else
        [StartTag ''indexterm'' attrs]
        @ (if terms \<noteq> []
           then [StartTag ''primary''
                   (if sortAs \<noteq> [] then ''sortas='' @ apos @ sortAs @ apos else []),
                 Text (terms ! 0), EndTag ''primary'']
           else [])
        @ (if length terms > 1
           then [StartTag ''secondary'' [], Text (terms ! 1), EndTag ''secondary'']
           else [])
        @ (if length terms > 2
           then [StartTag ''tertiary'' [], Text (terms ! 2), EndTag ''tertiary'']
           else [])
        @ (if see \<noteq> [] then [StartTag ''see'' [], Text see, EndTag ''see''] else [])
        @ concat (map (\<lambda>entry. [StartTag ''seealso'' [], Text entry, EndTag ''seealso''])
                    seeAlsoes)
        @ [EndTag ''indexterm''])"

text \<open>
  \<open>InsetIndex::docbook\<close>. \<open>use_indices\<close> is the setting of the master buffer,
  \<open>index\<close> is \<open>params_.index\<close>, \<open>latex\<close> is what \<open>InsetText::latex\<close> writes for the
  content of the inset. The result is what is written to the stream, and the state
  of the range identifiers after the call.
\<close>

definition docbook ::
  "bool \<Rightarrow> string \<Rightarrow> (string \<Rightarrow> string) \<Rightarrow> range_state \<Rightarrow> string
     \<Rightarrow> (xml_item list \<times> range_state) option" where
  "docbook use_indices index cleanID st latex = do {
     let latexString = trim latex;
     let out1 = docbook_unsupported_at latexString;
     let indexType = (if use_indices then '' type='' @ dquote @ index @ dquote else []);
     (indexTerms0, command0) \<leftarrow> docbook_split latexString;
     let (sortAs, indexTerms) = docbook_sorting indexTerms0;
     let terms = getVectorFromString indexTerms ''!'' False;
     command1 \<leftarrow> docbook_ranges latexString command0;
     (see, seeAlsoes, out2, command2) \<leftarrow> docbook_see latexString command1;
     let out3 = docbook_unsupported_command latexString command2;
     if terms = [] \<and> \<not> hasEndRange latexString
     then Some (out1 @ out2 @ out3
                @ [output_error (''No index term found! Complete entry: '' @ dquote
                                 @ latexString @ dquote)], st)
     else
       let (attrs, st') =
             docbook_attrs cleanID indexType st indexTerms
               (hasStartRange latexString) (hasEndRange latexString)
       in Some (out1 @ out2 @ out3
                @ docbook_write attrs (hasEndRange latexString) terms sortAs see seeAlsoes,
                st')
   }"

text \<open>The items that are diagnostic comments.\<close>

definition is_error :: "xml_item \<Rightarrow> bool" where
  "is_error x = (\<exists>error. x = output_error error)"


section \<open>Reading and writing the parameters of the inset\<close>

text \<open>\<open>InsetIndexParams::write\<close> appends to the output stream \<open>os\<close>.\<close>

definition InsetIndexParams_write :: "string \<Rightarrow> string \<Rightarrow> string" where
  "InsetIndexParams_write index os =
     os @ '' '' @ (if index \<noteq> [] then index else ''idx'') @ newline"

definition params2string :: "string \<Rightarrow> string" where
  "params2string index = InsetIndexParams_write index ''index''"

text \<open>
  Modelled from the spec: the class \<open>Lexer\<close> is not part of the source file. The spec
  has the parameters written as a type tag followed by a single-line block. Here a
  lexer is the input that is left to read; \<open>lex >> tag\<close> reads the tag and the one
  character that ends it, and leaves the input as it is when the tag is not there;
  \<open>eatLine\<close> reads the characters up to the next line break and the line break,
  and fails when nothing is left; \<open>getDocString\<close> is the line that was read.
\<close>

definition Lexer_expect :: "string \<Rightarrow> string \<Rightarrow> string" where
  "Lexer_expect tag input =
     (if starts_with input tag \<and> length tag < length input
      then drop (length tag + 1) input else input)"

definition Lexer_eatLine :: "string \<Rightarrow> (string \<times> string) option" where
  "Lexer_eatLine input =
     (if input = [] then None
      else Some (takeWhile (\<lambda>c. c \<noteq> CHR 0x0A) input,
                 drop 1 (dropWhile (\<lambda>c. c \<noteq> CHR 0x0A) input)))"

text \<open>\<open>InsetIndexParams::read\<close>: the index that is read, and the input that is left.\<close>

definition InsetIndexParams_read :: "string \<Rightarrow> string \<times> string" where
  "InsetIndexParams_read input =
     (case Lexer_eatLine input of
        Some (line, rest) \<Rightarrow> (line, rest)
      | None \<Rightarrow> (''idx'', input))"

text \<open>
  \<open>InsetIndex::string2params\<close>: \<open>dflt\<close> is the index of a newly constructed
  \<open>InsetIndexParams()\<close>, whose constructor is not part of the source file.
\<close>

definition string2params :: "string \<Rightarrow> string \<Rightarrow> string" where
  "string2params dflt input =
     (if input = [] then dflt
      else fst (InsetIndexParams_read (Lexer_expect ''index'' input)))"


section \<open>Notions used in the properties\<close>

text \<open>
  An item of the table of contents that is output, whose paragraph is rendered as
  the entry string itself and carries the given label.
\<close>

definition toc_item :: "string \<Rightarrow> string \<Rightarrow> TocItem" where
  "toc_item s label =
     \<lparr>str = s, tdit = \<lparr>innerParagraph = \<lparr>magicLabel = label, html = s\<rparr>\<rparr>, isOutput = True\<rparr>"

text \<open>A layout of the table of contents.\<close>

definition toc_layout :: Layout where
  "toc_layout = \<lparr>htmltag = ''h2'', htmlattr = [], defaultCSSClass = ''toc''\<rparr>"

text \<open>The link to the \<open>n\<close>-th occurrence of an entry, after the separator \<open>sep\<close>.\<close>

abbreviation link :: "string \<Rightarrow> string \<Rightarrow> int \<Rightarrow> xml_item list" where
  "link sep label n \<equiv>
     [Text sep, Text '' '', StartTag ''a'' (''href='' @ apos @ ''#'' @ label @ apos),
      Num n, EndTag ''a'']"

text \<open>The wrapper, the heading and the opening of the main list.\<close>

abbreviation index_head :: "Layout \<Rightarrow> string \<Rightarrow> xml_item list" where
  "index_head lay title \<equiv>
     [StartTag ''div'' (''class='' @ apos @ ''index '' @ defaultCSSClass lay @ apos),
      StartTag (htmltag lay) (htmlattr lay), Text title, EndTag (htmltag lay),
      StartTag ul class_main]"

text \<open>
  For a tag, the number of start tags less the number of end tags among the items:
  the depth at which the items leave that tag open.
\<close>

fun tag_delta :: "string \<Rightarrow> xml_item \<Rightarrow> int" where
  "tag_delta t (StartTag n a) = (if n = t then 1 else 0)"
| "tag_delta t (EndTag n) = (if n = t then - 1 else 0)"
| "tag_delta t x = 0"

definition open_depth :: "string \<Rightarrow> xml_item list \<Rightarrow> int" where
  "open_depth t out = sum_list (map (tag_delta t) out)"

text \<open>
  What the main loop keeps once an entry has been written: \<open>level\<close> is the number
  of lists that are open, and of items that are open.
\<close>

definition loop_inv :: "loop_state \<Rightarrow> bool" where
  "loop_inv st =
     (0 \<le> entry_number st \<and> 1 \<le> level st \<and> level st \<le> 3
      \<and> open_depth li (xs st) = level st \<and> open_depth ul (xs st) = level st)"

text \<open>The attribute strings of \<open>InsetIndex::docbook\<close>, and one of its diagnostics.\<close>

abbreviation index_type :: "bool \<Rightarrow> string \<Rightarrow> string" where
  "index_type use_indices index \<equiv>
     (if use_indices then '' type='' @ dquote @ index @ dquote else [])"

abbreviation startofrange_attrs :: "string \<Rightarrow> string \<Rightarrow> string" where
  "startofrange_attrs indexType ident \<equiv>
     indexType @ '' class='' @ dquote @ ''startofrange'' @ dquote
     @ '' xml:id='' @ dquote @ ident @ dquote"

abbreviation endofrange_attrs :: "string \<Rightarrow> string" where
  "endofrange_attrs ident \<equiv>
     '' class='' @ dquote @ ''endofrange'' @ dquote @ '' startref='' @ dquote @ ident @ dquote"

abbreviation range_start_items :: "string \<Rightarrow> string \<Rightarrow> xml_item list" where
  "range_start_items ident term \<equiv>
     [StartTag ''indexterm'' (startofrange_attrs [] ident),
      StartTag ''primary'' [], Text term, EndTag ''primary'', EndTag ''indexterm'']"


text \<open>
  Index terms as they are usually written: not empty, trimmed, without \<open>|\<close> and
  \<open>@\<close>, with at least one term between the separators \<open>!\<close>, and short enough for
  the positions after them to be \<open>size_t\<close> values.
\<close>

definition plain_terms :: "string \<Rightarrow> bool" where
  "plain_terms t =
     (t \<noteq> [] \<and> trimmed t \<and> CHR ''|'' \<notin> set t \<and> CHR ''@'' \<notin> set t
      \<and> getVectorFromString t ''!'' False \<noteq> [] \<and> length t + 2 < npos)"




section \<open>Properties\<close>

lemmas str_defs =
  str_find_def str_substr_def str_erase_def str_front_def npos_def size_add_def size_sub_def

lemmas parse_defs = parse_def extractSubentries_def parseItem_def trim_def is_space_def

lemmas xhtml_defs =
  xhtml_def IndexEntry_of_def IndexEntry_default_def stable_sort_def entry_less_def
  lowercase_def xhtml_entry_def xhtml_open_def xhtml_close_def entry_equal_def
  same_sub_def same_main_def toc_item_def toc_layout_def

lemmas docbook_defs =
  docbook_def docbook_unsupported_at_def docbook_split_def docbook_sorting_def
  docbook_unsupported_command_def docbook_ranges_def hasStartRange_def hasEndRange_def
  docbook_see_def docbook_attrs_def docbook_write_def getVectorFromString_def trim_def
  is_space_def erase_loop.simps range_state_init_def

lemmas params_defs =
  string2params_def params2string_def InsetIndexParams_write_def InsetIndexParams_read_def
  Lexer_expect_def Lexer_eatLine_def

subsection \<open>Searching a string\<close>

lemma starts_with_set: "starts_with s pat \<Longrightarrow> set pat \<subseteq> set s"
  by (induction s pat rule: starts_with.induct) auto

lemma find_at_absent:
  assumes "c \<in> set pat" and "c \<notin> set s"
  shows "find_at s pat i = npos"
  using assms
proof (induction s arbitrary: i)
  case Nil
  then show ?case by auto
next
  case (Cons x xs)
  have "\<not> starts_with (x # xs) pat"
    using starts_with_set [of "x # xs" pat] Cons.prems by auto
  then show ?case using Cons by simp
qed

lemma str_find_absent:
  assumes "c \<in> set pat" and "c \<notin> set s"
  shows "str_find s pat 0 = npos"
  using find_at_absent [OF assms] by (simp add: str_find_def)

lemma find_at_skip:
  "c \<notin> set pre \<Longrightarrow> find_at (pre @ s) (c # ps) i = find_at s (c # ps) (i + length pre)"
  by (induction pre arbitrary: i) auto

lemma str_find_first:
  assumes "c \<notin> set pre"
  shows "str_find (pre @ c # post) [c] 0 = length pre"
  using find_at_skip [OF assms, of "c # post" "[]" 0] by (simp add: str_find_def)



subsection \<open>Arithmetic on positions\<close>

lemma mod_sub_small:
  fixes a b m :: nat
  assumes "b \<le> a" and "a < m"
  shows "(a + m - b mod m) mod m = a - b"
proof -
  have b: "b mod m = b" using assms by simp
  have "a + m - b = (a - b) + m" using assms by linarith
  then have "(a + m - b) mod m = ((a - b) + m) mod m" by (rule arg_cong)
  also have "\<dots> = (a - b) mod m" by (rule mod_add_self2)
  also have "\<dots> = a - b" using assms by (intro mod_less) linarith
  finally show ?thesis by (simp only: b)
qed

lemma size_add_small: "a + b < 2 ^ 64 \<Longrightarrow> size_add a b = a + b"
  unfolding size_add_def by (rule mod_less)

lemma size_sub_small: "b \<le> a \<Longrightarrow> a < 2 ^ 64 \<Longrightarrow> size_sub a b = a - b"
  unfolding size_sub_def by (rule mod_sub_small)

lemma str_find_char_le: "size_add (str_find s [c] 0) 1 \<le> length s"
proof (cases "str_find s [c] 0 = npos")
  case True
  then show ?thesis by (simp add: size_add_def npos_def)
next
  case False
  from str_find_bound [OF False] have "str_find s [c] 0 + 1 \<le> length s" by simp
  moreover have "size_add (str_find s [c] 0) 1 \<le> str_find s [c] 0 + 1"
    by (simp add: size_add_def)
  ultimately show ?thesis by linarith
qed

subsection \<open>Trimming and splitting\<close>

lemma trim_id:
  assumes "s \<noteq> []" and "\<not> is_space (hd s)" and "\<not> is_space (last s)"
  shows "trim s = s"
proof -
  have 1: "dropWhile is_space s = s" using assms(1,2) by (cases s) simp_all
  have "rev s \<noteq> []" and "\<not> is_space (hd (rev s))"
    using assms(1,3) by (simp_all add: hd_rev)
  then have 2: "dropWhile is_space (rev s) = rev s" by (cases "rev s") simp_all
  show ?thesis by (simp add: trim_def 1 2)
qed

lemma split_pieces_absent: "c \<notin> set s \<Longrightarrow> split_pieces (c # ps) s = [s]"
  by (induction s) auto

lemma getVectorFromString_single:
  assumes "t \<noteq> []" and "trimmed t" and "c \<notin> set t"
  shows "getVectorFromString t (c # ps) False = [t]"
proof -
  have "trim t = t" using assms(1,2) by (intro trim_id) (simp_all add: trimmed_def)
  then show ?thesis
    using assms(1) split_pieces_absent [OF assms(3)] by (simp add: getVectorFromString_def)
qed

subsection \<open>Parsing entries\<close>

lemma parseItem_plain:
  assumes "CHR ''@'' \<notin> set s" and "CHR ''|'' \<notin> set s"
  shows "parseItem s b = Some s"
proof -
  have "str_find s ''@'' 0 = npos"
    using assms(1) by (intro str_find_absent [of "CHR ''@''"]) simp_all
  moreover have "str_find s ''|'' 0 = npos"
    using assms(2) by (intro str_find_absent [of "CHR ''|''"]) simp_all
  ultimately show ?thesis by (simp add: parseItem_def)
qed

lemma extractSubentries_plain:
  assumes "CHR ''!'' \<notin> set s"
  shows "extractSubentries s ([], [], []) = Some (s, [], [])"
proof -
  have "str_find s '' ! '' 0 = npos"
    using assms by (intro str_find_absent [of "CHR ''!''"]) simp_all
  then show ?thesis by (simp add: extractSubentries_def)
qed

text \<open>
  Claim C5. An entry string \<open>s\<close> without the characters \<open>@\<close>, \<open>|\<close> and \<open>!\<close> is parsed
  to \<open>(s, "", "")\<close>, for output and not for output alike: \<open>main\<close> is \<open>s\<close> unchanged,
  \<open>sub\<close> and \<open>subsub\<close> are empty. The empty string is parsed to three empty fields,
  and no exception is thrown.
\<close>

theorem parse_plain:
  assumes "CHR ''@'' \<notin> set s" and "CHR ''|'' \<notin> set s" and "CHR ''!'' \<notin> set s"
  shows "parse s True = Some (s, [], []) \<and> parse s False = Some (s, [], [])
         \<and> parse [] True = Some ([], [], []) \<and> parse [] False = Some ([], [], [])"
proof -
  have e: "parseItem [] b = Some []" for b
    by (rule parseItem_plain) simp_all
  have "parse s b = Some (s, [], [])" for b
    using extractSubentries_plain [OF assms(3)] parseItem_plain [OF assms(1,2)] e
    by (simp add: parse_def)
  moreover have "parse [] b = Some ([], [], [])" for b
    using extractSubentries_plain [of "[]"] e by (simp add: parse_def)
  ultimately show ?thesis by simp
qed

theorem parse_plain_witness:
  "CHR ''@'' \<notin> set ''index term'' \<and> CHR ''|'' \<notin> set ''index term''
   \<and> CHR ''!'' \<notin> set ''index term''
   \<and> parse ''index term'' True = Some (''index term'', [], [])
   \<and> parse ''index term'' False = Some (''index term'', [], [])"
  using parse_plain [of "''index term''"] by simp

lemma size_add_le: "size_add a b \<le> a + b"
  by (simp add: size_add_def)

lemma dropWhile_hd: "dropWhile P s \<noteq> [] \<Longrightarrow> \<not> P (hd (dropWhile P s))"
  by (induction s) (auto split: if_splits)

lemma last_dropWhile: "dropWhile P s \<noteq> [] \<Longrightarrow> last (dropWhile P s) = last s"
  by (induction s) (auto split: if_splits)

lemma trimmed_trim: "trimmed (trim s)"
proof (cases "trim s = []")
  case True
  then show ?thesis by (simp add: trimmed_def)
next
  case False
  let ?r = "dropWhile is_space s"
  let ?q = "dropWhile is_space (rev ?r)"
  from False have q: "?q \<noteq> []" by (simp add: trim_def)
  have r: "?r \<noteq> []"
  proof
    assume a: "?r = []"
    have "?q = []" unfolding a by simp
    with q show False by (rule notE)
  qed
  have "last (trim s) = hd ?q" using q by (simp add: trim_def last_rev)
  then have 1: "\<not> is_space (last (trim s))" using dropWhile_hd [OF q] by simp
  have "hd (trim s) = last ?q" using q by (simp add: trim_def hd_rev)
  also have "\<dots> = last (rev ?r)" using q by (rule last_dropWhile)
  also have "\<dots> = hd ?r" using r by (simp add: last_rev)
  finally have 2: "\<not> is_space (hd (trim s))" using dropWhile_hd [OF r] by simp
  from 1 2 show ?thesis by (simp add: trimmed_def)
qed

text \<open>
  An entry of claim C6 without the delimiter, which starts with a space: the entry
  is assigned to \<open>main\<close> as it is, with its space, while an entry with a delimiter
  has its segments trimmed.
\<close>

theorem extractSubentries_untrimmed_main:
  "extractSubentries '' a'' ([], [], []) = Some ('' a'', [], []) \<and> \<not> trimmed '' a''
   \<and> extractSubentries '' a ! b'' ([], [], []) = Some (''a'', ''b'', [])"
  by (simp add: parse_defs str_defs trimmed_def)

text \<open>
  Claim C6, amended. \<open>extractSubentries\<close> splits the entry at the first occurrence
  of \<open>" ! "\<close> and, after it, at the next occurrence, so at most twice. Where the
  entry holds the delimiter, every segment assigned to \<open>main\<close>, \<open>sub\<close> and
  \<open>subsub\<close> is trimmed. Where the delimiter is absent, only \<open>main\<close> is assigned:
  it is the entry as it is, not trimmed.
\<close>

theorem extractSubentries_segments:
  assumes "length entry < npos"
  shows "(str_find entry '' ! '' 0 = npos \<longrightarrow>
            extractSubentries entry ([], [], []) = Some (entry, [], []))
         \<and> (str_find entry '' ! '' 0 \<noteq> npos \<longrightarrow>
              (\<exists>m s1 s2.
                 extractSubentries entry ([], [], []) = Some (m, s1, s2)
                 \<and> trimmed m \<and> trimmed s1 \<and> trimmed s2
                 \<and> m = trim (take (str_find entry '' ! '' 0) entry)
                 \<and> (let locend = str_find entry '' ! '' 0 + 3;
                         loc2 = str_find entry '' ! '' locend
                     in if loc2 = npos
                        then s1 = trim (drop locend entry) \<and> s2 = []
                        else s1 = trim (take (loc2 - locend) (drop locend entry))
                             \<and> s2 = trim (drop (loc2 + 3) entry))))"
proof (intro conjI impI)
  assume "str_find entry '' ! '' 0 = npos"
  then show "extractSubentries entry ([], [], []) = Some (entry, [], [])"
    by (simp add: extractSubentries_def)
next
  let ?loc = "str_find entry '' ! '' 0"
  let ?locend = "?loc + 3"
  let ?loc2 = "str_find entry '' ! '' ?locend"
  assume f: "?loc \<noteq> npos"
  from str_find_bound [OF f] have b: "?loc + 3 \<le> length entry" by simp
  then have ne: "entry \<noteq> []" by auto
  have small: "length entry < 2 ^ 64" using assms by (simp add: npos_def)
  have a: "size_add ?loc 3 = ?locend" using b small by (intro size_add_small) simp
  have le: "\<not> length entry < ?locend" using b by simp
  have tk: "take npos s = s" if "length s \<le> length entry" for s :: string
    using that assms by simp
  have t: "trimmed []" by (simp add: trimmed_def)
  show "\<exists>m s1 s2.
          extractSubentries entry ([], [], []) = Some (m, s1, s2)
          \<and> trimmed m \<and> trimmed s1 \<and> trimmed s2
          \<and> m = trim (take ?loc entry)
          \<and> (let locend = ?loc + 3; loc2 = str_find entry '' ! '' locend
              in if loc2 = npos
                 then s1 = trim (drop locend entry) \<and> s2 = []
                 else s1 = trim (take (loc2 - locend) (drop locend entry))
                      \<and> s2 = trim (drop (loc2 + 3) entry))"
  proof (cases "?loc2 = npos")
    case True
    then show ?thesis
      using f ne le trimmed_trim t tk [of "drop ?locend entry"]
      by (simp add: extractSubentries_def str_substr_def Let_def a)
  next
    case False
    from str_find_bound [OF False] have b2: "?locend \<le> ?loc2" "?loc2 + 3 \<le> length entry"
      by simp_all
    have a2: "size_add ?loc2 3 = ?loc2 + 3" using b2 small by (intro size_add_small) simp
    have s2: "size_sub ?loc2 ?locend = ?loc2 - ?locend"
      using b2 small by (intro size_sub_small) simp_all
    have le2: "\<not> length entry < ?loc2 + 3" using b2 by simp
    show ?thesis
      using f ne le le2 False trimmed_trim tk [of "drop (?loc2 + 3) entry"]
      by (simp add: extractSubentries_def str_substr_def Let_def a a2 s2)
  qed
qed

theorem extractSubentries_segments_witness:
  "extractSubentries ''a  !  b ! c ! d'' ([], [], []) = Some (''a'', ''b'', ''c ! d'')
   \<and> extractSubentries ''a ! b '' ([], [], []) = Some (''a'', ''b'', [])
   \<and> extractSubentries '' a!b '' ([], [], []) = Some ('' a!b '', [], [])"
  using extractSubentries_segments [of "''a  !  b ! c ! d''"]
    extractSubentries_segments [of "''a ! b ''"] extractSubentries_segments [of "'' a!b ''"]
  by (simp add: parse_defs str_defs)

text \<open>Parsing never throws an exception, whatever the entry.\<close>

lemma extractSubentries_total: "\<exists>r. extractSubentries entry refs = Some r"
proof (cases "entry = [] \<or> str_find entry '' ! '' 0 = npos")
  case True
  then show ?thesis by (auto simp: extractSubentries_def Let_def split: prod.splits)
next
  case False
  let ?loc = "str_find entry '' ! '' 0"
  let ?locend = "size_add ?loc 3"
  let ?loc2 = "str_find entry '' ! '' ?locend"
  from False have f: "?loc \<noteq> npos" by simp
  from str_find_bound [OF f] have b: "?loc + 3 \<le> length entry" by simp
  have le: "\<not> length entry < ?locend" using b size_add_le [of ?loc 3] by simp
  show ?thesis
  proof (cases "?loc2 = npos")
    case True
    then show ?thesis
      using False le
      by (simp add: extractSubentries_def str_substr_def Let_def split: prod.splits)
  next
    case n: False
    from str_find_bound [OF n] have "?loc2 + 3 \<le> length entry" by simp
    then have "\<not> length entry < size_add ?loc2 3" using size_add_le [of ?loc2 3] by simp
    then show ?thesis
      using False le n
      by (simp add: extractSubentries_def str_substr_def Let_def split: prod.splits)
  qed
qed

lemma parseItem_total: "\<exists>r. parseItem s b = Some r"
proof -
  have 1: "\<exists>s1. (if str_find s ''@'' 0 \<noteq> npos
            then (if b then str_erase s 0 (size_add (str_find s ''@'' 0) 1)
                  else str_erase s (str_find s ''@'' 0) npos)
            else Some s) = Some s1"
  proof (cases "str_find s ''@'' 0 = npos")
    case False
    from str_find_bound [OF False] have "str_find s ''@'' 0 \<le> length s" by simp
    then show ?thesis by (simp add: str_erase_def)
  qed simp
  then obtain s1 where s1: "(if str_find s ''@'' 0 \<noteq> npos
            then (if b then str_erase s 0 (size_add (str_find s ''@'' 0) 1)
                  else str_erase s (str_find s ''@'' 0) npos)
            else Some s) = Some s1" by blast
  have "\<exists>r. (if str_find s1 ''|'' 0 \<noteq> npos then str_erase s1 (str_find s1 ''|'' 0) npos
              else Some s1) = Some r"
  proof (cases "str_find s1 ''|'' 0 = npos")
    case False
    from str_find_bound [OF False] have "str_find s1 ''|'' 0 \<le> length s1" by simp
    then show ?thesis by (simp add: str_erase_def)
  qed simp
  with s1 show ?thesis by (simp add: parseItem_def Let_def)
qed

lemma parse_total: "\<exists>r. parse s b = Some r"
proof -
  obtain m s1 s2 where e: "extractSubentries s ([], [], []) = Some (m, s1, s2)"
    using extractSubentries_total [of s "([], [], [])"] by auto
  obtain m' where m: "parseItem m b = Some m'" using parseItem_total by blast
  obtain s1' where s1: "parseItem s1 b = Some s1'" using parseItem_total by blast
  obtain s2' where s2: "parseItem s2 b = Some s2'" using parseItem_total by blast
  show ?thesis by (simp add: parse_def e m s1 s2)
qed

subsection \<open>The web rendering\<close>

lemma collect_entries_none:
  "\<forall>t \<in> set toc. \<not> isOutput t \<Longrightarrow> collect_entries toc = Some []"
  by (induction toc) simp_all

text \<open>
  Claim C8. When no item of the table of contents is output, so that the list of
  collected entries is empty, \<open>InsetPrintIndex::xhtml\<close> returns the empty string:
  no wrapper, no heading and no list is produced.
\<close>

theorem xhtml_no_entries:
  assumes "\<forall>t \<in> set toc. \<not> isOutput t"
  shows "xhtml use_indices type_param lay title toc = Some []"
  using collect_entries_none [OF assms] by (simp add: xhtml_def)

theorem xhtml_no_entries_witness:
  "xhtml False ''idx'' toc_layout ''Index''
     [(toc_item ''apple'' ''p1'')\<lparr>isOutput := False\<rparr>] = Some []
   \<and> xhtml False ''idx'' toc_layout ''Index'' [] = Some []"
  using
    xhtml_no_entries [of "[(toc_item ''apple'' ''p1'')\<lparr>isOutput := False\<rparr>]"
      False "''idx''" toc_layout "''Index''"]
    xhtml_no_entries [of "[]" False "''idx''" toc_layout "''Index''"]
  by simp

text \<open>
  The entries \<open>apple!red\<close>, \<open>apple!red\<close>, \<open>apple!green\<close>, \<open>banana\<close> of claim C3, as
  they are written there: no entry holds the delimiter \<open>" ! "\<close>, so each is a main
  entry of its own, and the sort puts \<open>apple!green\<close> first. There is no sub-list.
\<close>

theorem xhtml_apple_bang_red:
  "xhtml False ''idx'' toc_layout ''Index''
     [toc_item ''apple!red'' ''p1'', toc_item ''apple!red'' ''p2'',
      toc_item ''apple!green'' ''p3'', toc_item ''banana'' ''p4''] =
   Some (index_head toc_layout ''Index'' @
         [StartTag li class_main, Text ''apple!green''] @ link '':'' ''p3'' 1 @
         [EndTag li, CR,
          StartTag li class_main, Text ''apple!red''] @ link '':'' ''p1'' 1
           @ link '','' ''p2'' 2 @
         [EndTag li, CR,
          StartTag li class_main, Text ''banana''] @ link '':'' ''p4'' 1 @
         [EndTag li, EndTag ul, CR, EndTag ''div'', CR])"
  by (simp add: xhtml_defs parse_defs str_defs)

text \<open>
  Claim C3, amended. Given the entries \<open>apple ! red\<close>, \<open>apple ! red\<close>,
  \<open>apple ! green\<close>, \<open>banana\<close>, written with the delimiter \<open>" ! "\<close>, the function
  sorts them and emits exactly: one main item \<open>apple\<close> with a sub-list whose first
  item is \<open>green\<close> with the link \<open>: 1\<close> and whose second item is \<open>red\<close> with the
  links \<open>: 1\<close> and \<open>, 2\<close>; the sub-list and the main item are closed; a new main item
  \<open>banana\<close> with the link \<open>: 1\<close> follows.
\<close>

theorem xhtml_apple_red:
  "xhtml False type_param lay title
     [toc_item ''apple ! red'' ''p1'', toc_item ''apple ! red'' ''p2'',
      toc_item ''apple ! green'' ''p3'', toc_item ''banana'' ''p4''] =
   Some (index_head lay title @
         [StartTag li class_main, Text ''apple'', CR,
          StartTag ul class_subentry,
          StartTag li class_subentry, Raw ''green''] @ link '':'' ''p3'' 1 @
         [EndTag li, CR,
          StartTag li class_subentry, Raw ''red''] @ link '':'' ''p1'' 1
           @ link '','' ''p2'' 2 @
         [EndTag li, CR, EndTag ul, CR, EndTag li, CR,
          StartTag li class_main, Text ''banana''] @ link '':'' ''p4'' 1 @
         [EndTag li, EndTag ul, CR, EndTag ''div'', CR])"
  by (simp add: xhtml_defs parse_defs str_defs)

text \<open>
  Claim C4, at the list of the single entry with the empty string: the entry's
  \<open>main\<close> is empty, as is that of the default-constructed \<open>last\<close>, so no main item
  is opened for it; the final loop closes an item all the same. One \<open>li\<close> is closed,
  none is opened.
\<close>

theorem xhtml_empty_main_unbalanced:
  "xhtml False type_param lay title [toc_item [] ''p1''] =
   Some (index_head lay title @ link '':'' ''p1'' 1 @
         [EndTag li, EndTag ul, CR, EndTag ''div'', CR])"
  by (simp add: xhtml_defs parse_defs str_defs)

text \<open>
  When the \<open>main\<close> of every entry is not empty, the tags \<open>li\<close> and \<open>ul\<close> of the
  result balance.
\<close>

lemma open_depth_append [simp]: "open_depth t (a @ b) = open_depth t a + open_depth t b"
  by (simp add: open_depth_def)

lemma open_depth_Cons [simp]: "open_depth t (x # a) = tag_delta t x + open_depth t a"
  by (simp add: open_depth_def)

lemma open_depth_Nil [simp]: "open_depth t [] = 0"
  by (simp add: open_depth_def)

lemma level_cases: "1 \<le> (l::int) \<Longrightarrow> l \<le> 3 \<Longrightarrow> l = 1 \<or> l = 2 \<or> l = 3"
  by arith

lemma xhtml_entry_inv:
  assumes "loop_inv st" and "xhtml_entry st e = Some st'"
  shows "loop_inv st'"
proof -
  from assms(1) have l: "level st = 1 \<or> level st = 2 \<or> level st = 3"
    using level_cases by (simp add: loop_inv_def)
  show ?thesis
    using assms l
    by (auto simp: loop_inv_def xhtml_entry_def xhtml_close_def xhtml_open_def Let_def
          same_sub_def same_main_def entry_equal_def
        split: if_splits prod.splits Option.bind_splits)
qed


lemma xhtml_entry_first:
  assumes "entry_number st = -1" and "level st = 1" and "main (last_entry st) = []"
    and "open_depth li (xs st) = 0" and "open_depth ul (xs st) = 1"
    and "main e \<noteq> []" and "xhtml_entry st e = Some st'"
  shows "loop_inv st'"
  using assms
  by (auto simp: loop_inv_def xhtml_entry_def xhtml_open_def Let_def
      split: if_splits prod.splits Option.bind_splits)

lemma xhtml_loop_inv:
  "loop_inv st \<Longrightarrow> xhtml_loop st es = Some st' \<Longrightarrow> loop_inv st'"
proof (induction es arbitrary: st)
  case Nil
  then show ?case by simp
next
  case (Cons e es)
  then show ?case
    by (auto split: option.splits dest: xhtml_entry_inv)
qed

lemma close_levels_depth:
  "0 \<le> n \<Longrightarrow> open_depth li (close_levels n) = - n \<and> open_depth ul (close_levels n) = - n"
proof (induction n rule: close_levels.induct)
  case (1 lvl)
  show ?case
  proof (cases "lvl > 0")
    case True
    with 1 show ?thesis by (subst (1 2) close_levels.simps) simp
  next
    case False
    with 1 show ?thesis by simp
  qed
qed


lemma set_stable_insert: "set (stable_insert x ys) = insert x (set ys)"
  by (induction ys) auto

lemma set_stable_sort: "set (stable_sort es) = set es"
  by (induction es) (simp_all add: stable_sort_def set_stable_insert)

lemma xhtml_balanced:
  assumes "collect_entries toc = Some es" and "\<forall>e \<in> set es. main e \<noteq> []"
    and "xhtml use_indices type_param lay title toc = Some out"
  shows "open_depth li out = 0 \<and> open_depth ul out = 0"
proof (cases "(use_indices \<and> type_param \<noteq> ''idx'') \<or> toc = [] \<or> es = []")
  case True
  with assms(1,3) have "out = []" by (auto simp: xhtml_def split: if_splits)
  then show ?thesis by simp
next
  case False
  let ?st0 = "\<lparr>level = 1, last_entry = IndexEntry_default, entry_number = -1,
               xs = [StartTag ''div'' (''class='' @ apos @ ''index '' @ defaultCSSClass lay @ apos),
                     StartTag (htmltag lay) (htmlattr lay), Text title, EndTag (htmltag lay),
                     StartTag ul class_main]\<rparr>"
  from False assms(1,3) obtain st where
    loop: "xhtml_loop ?st0 (stable_sort es) = Some st"
    and out: "out = xs st @ close_levels (level st) @ [EndTag ''div'', CR]"
    by (auto simp: xhtml_def Let_def split: if_splits Option.bind_splits)
  from False have "stable_sort es \<noteq> []" using set_stable_sort [of es] by auto
  then obtain e rest where es: "stable_sort es = e # rest" by (cases "stable_sort es") auto
  then have "e \<in> set es" using set_stable_sort [of es] by auto
  with assms(2) have e: "main e \<noteq> []" by simp
  from loop es obtain st1 where
    first: "xhtml_entry ?st0 e = Some st1" and rest: "xhtml_loop st1 rest = Some st"
    by (auto split: option.splits)
  have "loop_inv st1"
    using first e by (intro xhtml_entry_first [of ?st0 e st1]) (simp_all add: IndexEntry_default_def)
  from xhtml_loop_inv [OF this rest] have inv: "loop_inv st" .
  then have "0 \<le> level st" by (simp add: loop_inv_def)
  from close_levels_depth [OF this] inv show ?thesis
    by (simp add: out loop_inv_def)
qed

subsection \<open>The semantic markup\<close>

text \<open>
  The input \<open>Smith@John Smith|see{Jones}\<close> of claim C2: the primary element carries
  the attribute \<open>sortas='Smith'\<close>.
\<close>

theorem docbook_smith_sortas:
  "docbook False ''idx'' id range_state_init ''Smith@John Smith|see{Jones}'' =
     Some ([StartTag ''indexterm'' [],
            StartTag ''primary'' (''sortas='' @ apos @ ''Smith'' @ apos),
            Text ''John Smith'', EndTag ''primary'',
            StartTag ''see'' [], Text ''Jones'', EndTag ''see'',
            EndTag ''indexterm''],
           range_state_init)"
  by (simp add: docbook_defs str_defs)

text \<open>
  Claim C2, amended. For the input \<open>Smith@John Smith|see{Jones}\<close> the function
  emits an \<open>indexterm\<close> element with a primary element whose text is \<open>John Smith\<close>
  and whose attribute is \<open>sortas='Smith'\<close>, and a single \<open>see\<close> element with the text
  \<open>Jones\<close>; it emits no diagnostic comment, and leaves the state of the range
  identifiers as it is.
\<close>

theorem docbook_smith:
  "docbook use_indices index cleanID st ''Smith@John Smith|see{Jones}'' =
     Some ([StartTag ''indexterm'' (index_type use_indices index),
            StartTag ''primary'' (''sortas='' @ apos @ ''Smith'' @ apos),
            Text ''John Smith'', EndTag ''primary'',
            StartTag ''see'' [], Text ''Jones'', EndTag ''see'',
            EndTag ''indexterm''],
           st)"
  by (simp add: docbook_defs str_defs)

subsection \<open>The semantic markup: every input\<close>

lemma erase_loop_total: "\<exists>command'. erase_loop a b command index = Some command'"
proof (induction a b command index rule: erase_loop.induct)
  case (1 a b command index)
  let ?i = "str_find command [a, b] index"
  show ?case
  proof (cases "?i = npos")
    case True
    then show ?thesis by (subst erase_loop.simps) simp
  next
    case False
    from str_find_bound [OF False] have le: "?i \<le> length command" by simp
    then obtain c' where c': "str_erase command ?i 1 = Some c'"
      by (simp add: str_erase_def)
    from "1.IH" [OF refl False c'] obtain r where "erase_loop a b c' ?i = Some r" by blast
    with False c' show ?thesis by (subst erase_loop.simps) simp
  qed
qed

lemma erase_loop_absent:
  assumes "a \<notin> set command"
  shows "erase_loop a b command 0 = Some command"
proof -
  have "str_find command [a, b] 0 = npos"
    using assms by (intro str_find_absent [of a]) simp_all
  then show ?thesis by (subst erase_loop.simps) simp
qed

lemma docbook_ranges_total:
  "\<exists>command'. docbook_ranges latexString command = Some command'"
proof -
  obtain c1 where c1: "erase_loop (CHR ''|'') (CHR ''('') command 0 = Some c1"
    using erase_loop_total by blast
  obtain c2 where c2: "erase_loop (CHR ''|'') (CHR '')'') c1 0 = Some c2"
    using erase_loop_total by blast
  show ?thesis by (simp add: docbook_ranges_def c1 c2 str_erase_def)
qed

lemma is_error_output [simp]: "is_error (output_error e)"
  by (auto simp: is_error_def)

lemma docbook_see_total:
  "\<exists>see seeAlsoes out command'.
     docbook_see latexString command = Some (see, seeAlsoes, out, command')
     \<and> list_all is_error out"
proof (cases "take 3 command = ''see''")
  case False
  then show ?thesis by (simp add: docbook_see_def str_substr_def)
next
  case True
  obtain c1 where c1: "erase_loop (CHR 0x5C) (CHR ''{'') command 0 = Some c1"
    using erase_loop_total by blast
  obtain c2 where c2: "erase_loop (CHR 0x5C) (CHR ''}'') c1 0 = Some c2"
    using erase_loop_total by blast
  have o: "\<not> length c2 < size_add (str_find c2 ''{'' 0) 1"
    using str_find_char_le [of c2 "CHR ''{''"] by simp
  have c: "\<not> length c2 < size_add (str_find c2 ''}'' 0) 1"
    using str_find_char_le [of c2 "CHR ''}''"] by simp
  show ?thesis
    using True o c
    by (simp add: docbook_see_def str_substr_def c1 c2 Let_def)
qed

lemma docbook_split_total:
  "\<exists>command. docbook_split s = Some (take (str_find s ''|'' 0) s, command)"
proof -
  have "\<not> length s < size_add (str_find s ''|'' 0) 1"
    using str_find_char_le [of s "CHR ''|''"] by simp
  then show ?thesis by (simp add: docbook_split_def str_substr_def Let_def)
qed

lemma docbook_unsupported_at_errors: "list_all is_error (docbook_unsupported_at s)"
  by (simp add: docbook_unsupported_at_def)

lemma docbook_unsupported_command_errors:
  "list_all is_error (docbook_unsupported_command s c)"
  by (simp add: docbook_unsupported_command_def)

lemma docbook_phases:
  "\<exists>command0 command1 see seeAlsoes out2 command2.
     docbook_split (trim latex)
       = Some (take (str_find (trim latex) ''|'' 0) (trim latex), command0)
     \<and> docbook_ranges (trim latex) command0 = Some command1
     \<and> docbook_see (trim latex) command1 = Some (see, seeAlsoes, out2, command2)
     \<and> list_all is_error out2"
proof -
  let ?s = "trim latex"
  obtain command0 where
    c0: "docbook_split ?s = Some (take (str_find ?s ''|'' 0) ?s, command0)"
    using docbook_split_total by blast
  obtain command1 where c1: "docbook_ranges ?s command0 = Some command1"
    using docbook_ranges_total by blast
  obtain see seeAlsoes out2 command2 where
    "docbook_see ?s command1 = Some (see, seeAlsoes, out2, command2)"
    "list_all is_error out2"
    using docbook_see_total by blast
  with c0 c1 show ?thesis by blast
qed


subsection \<open>The semantic markup: cross-references\<close>







subsection \<open>The semantic markup: ranges\<close>

text \<open>
  The input \<open>Term|(|)\<close>, which holds \<open>|)\<close>, of claim C10: the self-closing element
  carries the class \<open>startofrange\<close> and an \<open>xml:id\<close>.
\<close>

theorem docbook_both_markers:
  "docbook False ''idx'' id range_state_init ''Term|(|)'' =
     Some ([output_error
              (''Unsupported feature: an index entry contains a | with an ''
               @ ''unsupported command, ). Complete entry: '' @ dquote @ ''Term|(|)''
               @ dquote),
            CompTag ''indexterm'' (startofrange_attrs [] ''Term'')],
           \<lparr>knownTermLists = {''Term''}, ID = 0\<rparr>)"
  by (simp add: docbook_defs str_defs output_error_def)

text \<open>
  Claim C10, amended. Every entry that holds \<open>|)\<close> and does not hold \<open>|(\<close> is
  emitted as a single self-closing \<open>indexterm\<close> element, whose attributes are the
  class \<open>endofrange\<close> and the back-reference \<open>startref\<close> only; there is no primary,
  secondary, tertiary, \<open>see\<close> or \<open>seealso\<close> element, whatever the text before \<open>|)\<close>;
  only diagnostic comments can precede the element.
\<close>

theorem docbook_end_of_range:
  assumes "hasEndRange (trim latex)" and "\<not> hasStartRange (trim latex)"
  shows "\<exists>diags ident st'.
           docbook use_indices index cleanID st latex =
             Some (diags @ [CompTag ''indexterm'' (endofrange_attrs ident)], st')
           \<and> list_all is_error diags"
proof -
  from docbook_phases [of latex]
  obtain command0 command1 see seeAlsoes out2 command2 where
    p: "docbook_split (trim latex)
          = Some (take (str_find (trim latex) ''|'' 0) (trim latex), command0)"
       "docbook_ranges (trim latex) command0 = Some command1"
       "docbook_see (trim latex) command1 = Some (see, seeAlsoes, out2, command2)"
    and e: "list_all is_error out2"
    by blast
  let ?diags = "docbook_unsupported_at (trim latex) @ out2
                @ docbook_unsupported_command (trim latex) command2"
  let ?terms = "snd (docbook_sorting (take (str_find (trim latex) ''|'' 0) (trim latex)))"
  let ?new = "if ?terms \<in> knownTermLists st
              then ?terms @ ''-'' @ to_string (ID st) else ?terms"
  have "docbook use_indices index cleanID st latex =
          Some (?diags @ [CompTag ''indexterm'' (endofrange_attrs (cleanID ?new))],
                snd (docbook_attrs cleanID (index_type use_indices index)
                       st ?terms False True))"
    using p assms
    by (simp add: docbook_def Let_def split_def docbook_attrs_def docbook_write_def)
  moreover have "list_all is_error ?diags"
    using e docbook_unsupported_at_errors docbook_unsupported_command_errors by simp
  ultimately show ?thesis by blast
qed

theorem docbook_end_of_range_witness:
  "hasEndRange (trim ''Term!sub|)'') \<and> \<not> hasStartRange (trim ''Term!sub|)'')
   \<and> docbook True ''idx'' id range_state_init ''Term!sub|)'' =
       Some ([CompTag ''indexterm'' (endofrange_attrs ''Term!sub'')],
             \<lparr>knownTermLists = {''Term!sub''}, ID = 0\<rparr>)"
  using docbook_end_of_range [of "''Term!sub|)''" True "''idx''" id range_state_init]
  by (simp add: docbook_defs str_defs)

lemma range_latex:
  assumes "plain_terms t" and "m = CHR ''('' \<or> m = CHR '')''"
  shows "trim (t @ [CHR ''|'', m]) = t @ [CHR ''|'', m]"
    and "docbook_unsupported_at (t @ [CHR ''|'', m]) = []"
    and "docbook_split (t @ [CHR ''|'', m]) = Some (t, [m])"
    and "docbook_sorting t = ([], t)"
    and "hasStartRange (t @ [CHR ''|'', m]) \<longleftrightarrow> m = CHR ''(''"
    and "hasEndRange (t @ [CHR ''|'', m]) \<longleftrightarrow> m = CHR '')''"
    and "docbook_ranges (t @ [CHR ''|'', m]) [m] = Some []"
proof -
  let ?s = "t @ [CHR ''|'', m]"
  from assms(1) have t: "t \<noteq> []" "trimmed t" "CHR ''|'' \<notin> set t" "CHR ''@'' \<notin> set t"
    and len: "length t + 2 < npos"
    by (simp_all add: plain_terms_def)
  have sp: "\<not> is_space m" using assms(2) by (auto simp: is_space_def)
  show "trim ?s = ?s"
    using t(1,2) sp by (intro trim_id) (simp_all add: trimmed_def)
  have "CHR ''@'' \<notin> set ?s" using t(4) assms(2) by auto
  then have "str_find ?s (''@'' @ bslash) 0 = npos"
    by (intro str_find_absent [of "CHR ''@''"]) simp_all
  then show "docbook_unsupported_at ?s = []" by (simp add: docbook_unsupported_at_def)
  have bar: "str_find ?s ''|'' 0 = length t"
    using str_find_first [OF t(3), of "[m]"] by simp
  have ne: "length t \<noteq> npos" using len by simp
  have small: "length t + 1 < 2 ^ 64" using len by (simp add: npos_def)
  have a1: "size_add (length t) (Suc 0) = Suc (length t)"
    using size_add_small [of "length t" 1] small by simp
  have tk: "take npos [m] = [m]" by (simp add: npos_def)
  show "docbook_split ?s = Some (t, [m])"
    by (simp add: docbook_split_def bar ne a1 tk str_substr_def Let_def)
  show "docbook_sorting t = ([], t)"
    using getVectorFromString_single [OF t(1,2,4), of "[]"] by (simp add: docbook_sorting_def)
  have f: "str_find ?s [CHR ''|'', x] 0 = find_at [CHR ''|'', m] [CHR ''|'', x] (length t)"
    for x
    using find_at_skip [OF t(3), of "[CHR ''|'', m]" "[x]" 0] by (simp add: str_find_def)
  show "hasStartRange ?s \<longleftrightarrow> m = CHR ''(''"
    using ne assms(2) by (auto simp: hasStartRange_def f)
  show "hasEndRange ?s \<longleftrightarrow> m = CHR '')''"
    using ne assms(2) by (auto simp: hasEndRange_def f)
  have "hasStartRange ?s \<or> hasEndRange ?s"
    using ne assms(2) by (auto simp: hasStartRange_def hasEndRange_def f)
  moreover have "erase_loop (CHR ''|'') b [m] 0 = Some [m]" for b
    using assms(2) by (intro erase_loop_absent) auto
  ultimately show "docbook_ranges ?s [m] = Some []"
    using assms(2) by (auto simp: docbook_ranges_def str_front_def str_erase_def)
qed

lemma docbook_see_empty: "docbook_see s [] = Some ([], [], [], [])"
  by (simp add: docbook_see_def str_substr_def)

lemma docbook_range_start:
  assumes "plain_terms t"
  shows "docbook use_indices index cleanID st (t @ ''|('') =
           Some (docbook_write
                   (fst (docbook_attrs cleanID (index_type use_indices index) st t True False))
                   False (getVectorFromString t ''!'' False) [] [] [],
                 st)"
proof -
  have "getVectorFromString t ''!'' False \<noteq> []" using assms by (simp add: plain_terms_def)
  moreover have "snd (docbook_attrs cleanID i st t True False) = st" for i
    by (simp add: docbook_attrs_def Let_def)
  ultimately show ?thesis
    using range_latex [OF assms, of "CHR ''(''"]
    by (simp add: docbook_def docbook_see_empty docbook_unsupported_command_def split_def
        Let_def)
qed

lemma docbook_range_end:
  assumes "plain_terms t"
  shows "docbook use_indices index cleanID st (t @ ''|)'') =
           Some ([CompTag ''indexterm''
                    (fst (docbook_attrs cleanID (index_type use_indices index)
                            st t False True))],
                 snd (docbook_attrs cleanID (index_type use_indices index) st t False True))"
  using range_latex [OF assms, of "CHR '')''"]
  by (simp add: docbook_def docbook_see_empty docbook_unsupported_command_def split_def
      docbook_write_def Let_def)

text \<open>
  What holds of two range pairs with the same index terms \<open>t\<close> when the four
  calls \<open>t|(\<close>, \<open>t|)\<close>, \<open>t|(\<close>, \<open>t|)\<close> follow one another with no other range
  between them, and \<open>t\<close> is not yet known to the thread: the first pair gets the
  identifier made from \<open>t\<close>, the second the one made from \<open>t\<close>, a hyphen and the
  counter, and each end refers to the identifier of its start.
\<close>

lemma docbook_range_pairs:
  assumes "plain_terms t" and "t \<notin> knownTermLists st" and "ID st < 2147483647"
  shows "docbook use_indices index cleanID st (t @ ''|('') =
           Some (docbook_write (startofrange_attrs (index_type use_indices index) (cleanID t))
                   False (getVectorFromString t ''!'' False) [] [] [],
                 st)
         \<and> docbook use_indices index cleanID st (t @ ''|)'') =
             Some ([CompTag ''indexterm'' (endofrange_attrs (cleanID t))],
                   st\<lparr>knownTermLists := insert t (knownTermLists st)\<rparr>)
         \<and> docbook use_indices index cleanID
               (st\<lparr>knownTermLists := insert t (knownTermLists st)\<rparr>) (t @ ''|('') =
             Some (docbook_write
                     (startofrange_attrs (index_type use_indices index)
                        (cleanID (t @ ''-'' @ to_string (ID st))))
                     False (getVectorFromString t ''!'' False) [] [] [],
                   st\<lparr>knownTermLists := insert t (knownTermLists st)\<rparr>)
         \<and> docbook use_indices index cleanID
               (st\<lparr>knownTermLists := insert t (knownTermLists st)\<rparr>) (t @ ''|)'') =
             Some ([CompTag ''indexterm''
                      (endofrange_attrs (cleanID (t @ ''-'' @ to_string (ID st))))],
                   st\<lparr>knownTermLists := insert t (knownTermLists st), ID := ID st + 1\<rparr>)
         \<and> t \<noteq> t @ ''-'' @ to_string (ID st)
         \<and> (inj cleanID \<longrightarrow> cleanID t \<noteq> cleanID (t @ ''-'' @ to_string (ID st)))"
proof -
  have ne: "t \<noteq> t @ ''-'' @ to_string (ID st)" by simp
  then have "inj cleanID \<longrightarrow> cleanID t \<noteq> cleanID (t @ ''-'' @ to_string (ID st))"
    by (auto dest: injD)
  with ne show ?thesis
    using assms(2)
    by (simp add: docbook_range_start [OF assms(1)] docbook_range_end [OF assms(1)]
        docbook_attrs_def Let_def)
qed

lemma docbook_range_pairs_example:
  "plain_terms ''Term'' \<and> ''Term'' \<notin> knownTermLists range_state_init
   \<and> ID range_state_init < 2147483647
   \<and> docbook False ''idx'' id range_state_init ''Term|('' =
       Some ([StartTag ''indexterm'' (startofrange_attrs [] ''Term''),
              StartTag ''primary'' [], Text ''Term'', EndTag ''primary'',
              EndTag ''indexterm''],
             range_state_init)
   \<and> docbook False ''idx'' id range_state_init ''Term|)'' =
       Some ([CompTag ''indexterm'' (endofrange_attrs ''Term'')],
             \<lparr>knownTermLists = {''Term''}, ID = 0\<rparr>)
   \<and> docbook False ''idx'' id \<lparr>knownTermLists = {''Term''}, ID = 0\<rparr> ''Term|('' =
       Some ([StartTag ''indexterm'' (startofrange_attrs [] ''Term-0''),
              StartTag ''primary'' [], Text ''Term'', EndTag ''primary'',
              EndTag ''indexterm''],
             \<lparr>knownTermLists = {''Term''}, ID = 0\<rparr>)
   \<and> docbook False ''idx'' id \<lparr>knownTermLists = {''Term''}, ID = 0\<rparr> ''Term|)'' =
       Some ([CompTag ''indexterm'' (endofrange_attrs ''Term-0'')],
             \<lparr>knownTermLists = {''Term''}, ID = 1\<rparr>)
   \<and> id ''Term'' \<noteq> id ''Term-0''"
  using docbook_range_pairs [of "''Term''" range_state_init False "''idx''" id]
  by (simp add: plain_terms_def trimmed_def getVectorFromString_def trim_def is_space_def
      npos_def range_state_init_def docbook_write_def to_string_def)

text \<open>
  Claim C1, at two range pairs of \<open>Term\<close> with a range of \<open>Other\<close> inside the
  second: the calls \<open>Term|(\<close>, \<open>Term|)\<close>, \<open>Other|(\<close>, \<open>Other|)\<close>, then \<open>Term|(\<close>,
  \<open>Other|(\<close>, \<open>Other|)\<close>, \<open>Term|)\<close>, by one thread from its first state. The second
  start of \<open>Term\<close> gets the identifier \<open>Term-0\<close>. The end of \<open>Other\<close>, a term list
  that is known, increments the one counter of the thread. So the second end of
  \<open>Term\<close> refers to \<open>Term-1\<close>, an identifier that no start has, and the counter
  is incremented at an end that is not the matching one.
\<close>

theorem docbook_nested_ranges:
  "docbook False ''idx'' id range_state_init ''Term|('' =
     Some (range_start_items ''Term'' ''Term'', range_state_init)
   \<and> docbook False ''idx'' id range_state_init ''Term|)'' =
       Some ([CompTag ''indexterm'' (endofrange_attrs ''Term'')],
             \<lparr>knownTermLists = {''Term''}, ID = 0\<rparr>)
   \<and> docbook False ''idx'' id \<lparr>knownTermLists = {''Term''}, ID = 0\<rparr> ''Other|('' =
       Some (range_start_items ''Other'' ''Other'',
             \<lparr>knownTermLists = {''Term''}, ID = 0\<rparr>)
   \<and> docbook False ''idx'' id \<lparr>knownTermLists = {''Term''}, ID = 0\<rparr> ''Other|)'' =
       Some ([CompTag ''indexterm'' (endofrange_attrs ''Other'')],
             \<lparr>knownTermLists = {''Other'', ''Term''}, ID = 0\<rparr>)
   \<and> docbook False ''idx'' id \<lparr>knownTermLists = {''Other'', ''Term''}, ID = 0\<rparr>
         ''Term|('' =
       Some (range_start_items ''Term-0'' ''Term'',
             \<lparr>knownTermLists = {''Other'', ''Term''}, ID = 0\<rparr>)
   \<and> docbook False ''idx'' id \<lparr>knownTermLists = {''Other'', ''Term''}, ID = 0\<rparr>
         ''Other|('' =
       Some (range_start_items ''Other-0'' ''Other'',
             \<lparr>knownTermLists = {''Other'', ''Term''}, ID = 0\<rparr>)
   \<and> docbook False ''idx'' id \<lparr>knownTermLists = {''Other'', ''Term''}, ID = 0\<rparr>
         ''Other|)'' =
       Some ([CompTag ''indexterm'' (endofrange_attrs ''Other-0'')],
             \<lparr>knownTermLists = {''Other'', ''Term''}, ID = 1\<rparr>)
   \<and> docbook False ''idx'' id \<lparr>knownTermLists = {''Other'', ''Term''}, ID = 1\<rparr>
         ''Term|)'' =
       Some ([CompTag ''indexterm'' (endofrange_attrs ''Term-1'')],
             \<lparr>knownTermLists = {''Other'', ''Term''}, ID = 2\<rparr>)"
  by (simp add: docbook_defs str_defs to_string_def)

subsection \<open>The parameters of the inset\<close>

lemma takeWhile_line:
  "CHR 0x0A \<notin> set s \<Longrightarrow> takeWhile (\<lambda>c. c \<noteq> CHR 0x0A) (s @ newline) = s"
  by (induction s) auto

text \<open>
  An index name of two lines, for claim C9: what is written for it holds two
  lines after the tag, and what is read back is the first line.
\<close>

theorem params_two_lines:
  "params2string (''a'' @ newline @ ''b'') = ''index a'' @ newline @ ''b'' @ newline
   \<and> string2params [] (params2string (''a'' @ newline @ ''b'')) = ''a''"
  by (simp add: params_defs)

text \<open>
  Claim C9, amended. For an index name without a line break, the parameters are
  written as the tag \<open>index\<close>, a space, the name (\<open>idx\<close> when the name is empty) and a
  line break, that is, as a block of a single line; and reading that back gives the
  name, or \<open>idx\<close> when the name is empty. Reading where no line is left gives
  \<open>idx\<close> as well.
\<close>

theorem params_roundtrip:
  assumes "CHR 0x0A \<notin> set index"
  shows "params2string index = ''index '' @ (if index = [] then ''idx'' else index) @ newline
         \<and> string2params dflt (params2string index) = (if index = [] then ''idx'' else index)
         \<and> fst (InsetIndexParams_read []) = ''idx''"
  using takeWhile_line [OF assms] by (simp add: params_defs)

theorem params_roundtrip_witness:
  "CHR 0x0A \<notin> set ''names'' \<and> CHR 0x0A \<notin> set []
   \<and> params2string ''names'' = ''index names'' @ newline
   \<and> string2params [] (params2string ''names'') = ''names''
   \<and> params2string [] = ''index idx'' @ newline
   \<and> string2params [] (params2string []) = ''idx''"
  using params_roundtrip [of "''names''" "[]"] params_roundtrip [of "[]" "[]"]
  by (simp add: params_defs)

end
